theory Spec2Isabelle
  imports Complex_Main "HOL-Library.Multiset" "HOL-Library.Sublist"
begin

section \<open>Hybrid retrieval and reranking of the legal QA system\<close>

text \<open>
  A shallow embedding of \<^verbatim>\<open>retriever_custom.py\<close> and \<^verbatim>\<open>generator.py\<close>.

  Python strings are sequences of Unicode code points, so a string is a list of
  code points (\<open>len\<close> is \<open>length\<close>). Python floats are modelled by the reals:
  rounding, infinities and NaN are outside the model. Dictionary keys of the
  fragment property maps are ASCII and are kept as HOL strings.
\<close>

subsection \<open>Data model\<close>

type_synonym ustr = "nat list"

text \<open>A property value as the vector store returns it: a text or \<open>None\<close>.\<close>

datatype pval = PNone | PStr ustr

text \<open>
  A fragment property dictionary. \<open>pget p key d\<close> is \<^verbatim>\<open>p.get(key, d)\<close>: the default
  is used only when the key is missing, a stored \<open>None\<close> is returned as it is.
\<close>

type_synonym props = "(string \<times> pval) list"

definition pget :: "props \<Rightarrow> string \<Rightarrow> pval \<Rightarrow> pval" where
  "pget p key d = (case map_of p key of None \<Rightarrow> d | Some v \<Rightarrow> v)"

text \<open>\<^verbatim>\<open>x.get("display_citation", "")\<close>, the key that joins the two retrieval paths.\<close>

definition citation_key :: "props \<Rightarrow> pval" where
  "citation_key p = pget p ''display_citation'' (PStr [])"

text \<open>
  A candidate is the dictionary \<^verbatim>\<open>{"props": ..., "score": ...}\<close>; \<open>rerank\<close> adds the
  entry \<^verbatim>\<open>"rerank_score"\<close> to it.
\<close>

record candidate =
  props :: props
  score :: real
  rerank_score :: "real option"

text \<open>An object of the vector store's answer: its properties and \<^verbatim>\<open>metadata.distance\<close>.\<close>

record dense_obj =
  properties :: props
  distance :: "real option"

datatype error = ValueError | IndexError

text \<open>
  The collaborators of the module, which the source holds in module-level globals:
  the corpus snapshot \<^verbatim>\<open>chunks_cache\<close>, the BM25 scorer (tokeniser and
  \<^verbatim>\<open>bm25_index.get_scores\<close>, one score per indexed document), NumPy's \<^verbatim>\<open>argsort\<close>,
  the embedding model with the vector store's \<^verbatim>\<open>near_vector\<close> query, and the
  cross-encoder's \<^verbatim>\<open>predict\<close>.
\<close>

record env =
  chunks_cache :: "props list"
  get_scores :: "ustr \<Rightarrow> real list"
  argsort :: "real list \<Rightarrow> nat list"
  near_vector :: "ustr \<Rightarrow> int \<Rightarrow> dense_obj list"
  predict :: "(ustr \<times> pval) list \<Rightarrow> real list"

text \<open>The Python slice \<^verbatim>\<open>xs[:k]\<close>; a negative \<open>k\<close> drops the last \<open>-k\<close> elements.\<close>

definition slice_to :: "'a list \<Rightarrow> int \<Rightarrow> 'a list" where
  "slice_to xs k = (if 0 \<le> k then take (nat k) xs else take (length xs - nat (- k)) xs)"


subsection \<open>Lexical retrieval\<close>

text \<open>
  \<^verbatim>\<open>retrieve_bm25\<close>: \<^verbatim>\<open>top_indices = np.argsort(-scores)[:k]\<close>,
  \<^verbatim>\<open>top_scores = scores[top_indices]\<close>; indexing an array out of range raises.
\<close>

definition retrieve_bm25 :: "env \<Rightarrow> ustr \<Rightarrow> int \<Rightarrow> error + (nat list \<times> real list)" where
  "retrieve_bm25 E query k =
     (let scores = get_scores E query;
          top_indices = slice_to (argsort E (map uminus scores)) k
      in if list_all (\<lambda>i. i < length scores) top_indices
         then Inr (top_indices, map (\<lambda>i. scores ! i) top_indices)
         else Inl IndexError)"

subsection \<open>Dense retrieval\<close>

text \<open>
  \<^verbatim>\<open>score = 1.0 - obj.metadata.distance if obj.metadata.distance else 0.0\<close>:
  the condition is the truth value of the distance, which is false for \<open>None\<close> and
  for \<open>0.0\<close>.
\<close>

definition dense_score :: "real option \<Rightarrow> real" where
  "dense_score d = (case d of None \<Rightarrow> 0 | Some x \<Rightarrow> if x \<noteq> 0 then 1 - x else 0)"

definition retrieve_dense :: "env \<Rightarrow> ustr \<Rightarrow> int \<Rightarrow> candidate list" where
  "retrieve_dense E query k =
     map (\<lambda>obj. \<lparr>props = properties obj, score = dense_score (distance obj),
                rerank_score = None\<rparr>)
         (near_vector E query k)"

subsection \<open>Hybrid fusion\<close>

text \<open>\<^verbatim>\<open>np.max\<close> of an empty array raises \<open>ValueError\<close>.\<close>

fun np_max :: "real list \<Rightarrow> error + real" where
  "np_max [] = Inl ValueError"
| "np_max (x # xs) = Inr (fold max xs x)"

text \<open>
  The constant \<^verbatim>\<open>1e-8\<close> of the normalisation. Where the largest score is
  \<open>- eps\<close>, NumPy divides by zero and yields infinities or NaN without raising;
  the real quotient is \<open>0\<close> there, and that case is outside the model.
\<close>

definition eps :: real where
  "eps = 1 / 100000000"

text \<open>
  The loop that fills \<^verbatim>\<open>bm25_score_map\<close>: a later entry with the same key
  overwrites an earlier one; \<^verbatim>\<open>chunks_cache[idx]\<close> raises out of range.
\<close>

fun build_score_map ::
  "props list \<Rightarrow> (nat \<times> real) list \<Rightarrow> (pval \<rightharpoonup> real) \<Rightarrow> error + (pval \<rightharpoonup> real)" where
  "build_score_map cache [] m = Inr m"
| "build_score_map cache ((idx, s) # rest) m =
     (if idx < length cache
      then build_score_map cache rest (m(citation_key (cache ! idx) \<mapsto> s))
      else Inl IndexError)"

text \<open>\<^verbatim>\<open>bm25_score_map.get(citation, 0.0)\<close>.\<close>

definition score_get :: "(pval \<rightharpoonup> real) \<Rightarrow> pval \<Rightarrow> real" where
  "score_get m c = (case m c of None \<Rightarrow> 0 | Some s \<Rightarrow> s)"

text \<open>The loop over the dense results.\<close>

definition combine_dense :: "real \<Rightarrow> (pval \<rightharpoonup> real) \<Rightarrow> candidate list \<Rightarrow> candidate list" where
  "combine_dense alpha m dense =
     map (\<lambda>d. \<lparr>props = props d,
              score = alpha * score d + (1 - alpha) * score_get m (citation_key (props d)),
              rerank_score = None\<rparr>) dense"

text \<open>The loop that adds the BM25-only results.\<close>

fun bm25_only ::
  "props list \<Rightarrow> real \<Rightarrow> (pval \<rightharpoonup> real) \<Rightarrow> pval set \<Rightarrow> nat list \<Rightarrow> error + candidate list" where
  "bm25_only cache alpha m dense_citations [] = Inr []"
| "bm25_only cache alpha m dense_citations (idx # rest) =
     (if idx < length cache
      then (case bm25_only cache alpha m dense_citations rest of
              Inl e \<Rightarrow> Inl e
            | Inr extra \<Rightarrow>
                (let chunk = cache ! idx; citation = citation_key chunk
                 in if citation \<notin> dense_citations
                    then Inr (\<lparr>props = chunk, score = (1 - alpha) * score_get m citation,
                               rerank_score = None\<rparr> # extra)
                    else Inr extra))
      else Inl IndexError)"

text \<open>
  \<^verbatim>\<open>combined.sort(key=lambda x: x["score"], reverse=True)\<close>: Python's sort is
  stable, also with \<open>reverse\<close>, so it is the stable sort on the negated key.
\<close>

definition sort_desc :: "('a \<Rightarrow> real) \<Rightarrow> 'a list \<Rightarrow> 'a list" where
  "sort_desc f xs = sort_key (\<lambda>x. - f x) xs"

text \<open>The list \<open>combined\<close> as it is before it is sorted and cut.\<close>

definition fuse_all :: "env \<Rightarrow> ustr \<Rightarrow> real \<Rightarrow> int \<Rightarrow> error + candidate list" where
  "fuse_all E query alpha k =
     (case retrieve_bm25 E query k of
        Inl e \<Rightarrow> Inl e
      | Inr (bm25_indices, bm25_scores) \<Rightarrow>
     (case np_max bm25_scores of
        Inl e \<Rightarrow> Inl e
      | Inr mx \<Rightarrow>
     (let bm25_scores_norm = map (\<lambda>s. s / (mx + eps)) bm25_scores;
          dense_results = retrieve_dense E query k
      in case build_score_map (chunks_cache E) (zip bm25_indices bm25_scores_norm) Map.empty of
        Inl e \<Rightarrow> Inl e
      | Inr m \<Rightarrow>
     (let combined = combine_dense alpha m dense_results;
          dense_citations = set (map (\<lambda>r. citation_key (props r)) dense_results)
      in case bm25_only (chunks_cache E) alpha m dense_citations bm25_indices of
        Inl e \<Rightarrow> Inl e
      | Inr extra \<Rightarrow> Inr (combined @ extra)))))"

definition retrieve_hybrid :: "env \<Rightarrow> ustr \<Rightarrow> real \<Rightarrow> int \<Rightarrow> error + candidate list" where
  "retrieve_hybrid E query alpha k =
     (case fuse_all E query alpha k of
        Inl e \<Rightarrow> Inl e
      | Inr combined \<Rightarrow> Inr (slice_to (sort_desc score combined) k))"

subsection \<open>Reranking\<close>

text \<open>
  \<^verbatim>\<open>rerank\<close>. The result carries the batches handed to the cross-encoder, so that
  a call of the oracle is visible. \<^verbatim>\<open>scores[i]\<close> raises when the oracle returns
  fewer scores than pairs. The candidates are separate dictionaries, as
  \<^verbatim>\<open>retrieve_hybrid\<close> builds them.
\<close>

definition rerank_key :: "candidate \<Rightarrow> real" where
  "rerank_key c = (case rerank_score c of None \<Rightarrow> 0 | Some s \<Rightarrow> s)"

definition rerank ::
  "env \<Rightarrow> ustr \<Rightarrow> candidate list \<Rightarrow> int
     \<Rightarrow> (ustr \<times> pval) list list \<times> (error + candidate list)" where
  "rerank E query candidates final_k =
     (if candidates = [] then ([], Inr [])
      else
        (let texts = map (\<lambda>c. pget (props c) ''enriched_text'' (PStr [])) candidates;
             pairs = map (\<lambda>text. (query, text)) texts;
             scores = predict E pairs
         in ([pairs],
             if length scores < length candidates then Inl IndexError
             else Inr (slice_to
                        (sort_desc rerank_key
                           (map (\<lambda>(c, s). c\<lparr>rerank_score := Some s\<rparr>) (zip candidates scores)))
                        final_k))))"

subsection \<open>Unicode tables and the two patterns\<close>

text \<open>
  The character tables of the Python runtime that the source relies on: the
  white space of \<^verbatim>\<open>str.strip\<close> and \<^verbatim>\<open>\s\<close>, the decimal digits of \<^verbatim>\<open>\d\<close>, the word
  characters of \<^verbatim>\<open>\w\<close> (which decide \<^verbatim>\<open>\b\<close>), the canonical form under which
  \<^verbatim>\<open>re.IGNORECASE\<close> compares two characters, and \<^verbatim>\<open>str.lower\<close>.
\<close>

record unicode =
  is_space :: "nat \<Rightarrow> bool"
  is_digit :: "nat \<Rightarrow> bool"
  is_word :: "nat \<Rightarrow> bool"
  fold_case :: "nat \<Rightarrow> nat"
  lower :: "ustr \<Rightarrow> ustr"

text \<open>
  The patterns of the source need a word boundary, an alternative of literal
  texts, and a repeated character class; a pattern is a sequence of such items.
\<close>

datatype cls = Space | Digit | OneOf ustr

datatype item = WordB | Lits "ustr list" | Plus "cls list" | Star "cls list"

type_synonym regex = "item list"

definition in_cls :: "unicode \<Rightarrow> nat \<Rightarrow> cls \<Rightarrow> bool" where
  "in_cls U c cl =
     (case cl of
        Space \<Rightarrow> is_space U c
      | Digit \<Rightarrow> is_digit U c
      | OneOf cs \<Rightarrow> fold_case U c \<in> set (map (fold_case U) cs))"

definition in_set :: "unicode \<Rightarrow> cls list \<Rightarrow> nat \<Rightarrow> bool" where
  "in_set U cs c = list_ex (in_cls U c) cs"

definition word_at :: "unicode \<Rightarrow> ustr \<Rightarrow> nat \<Rightarrow> bool" where
  "word_at U s i \<longleftrightarrow> i < length s \<and> is_word U (s ! i)"

definition boundary :: "unicode \<Rightarrow> ustr \<Rightarrow> nat \<Rightarrow> bool" where
  "boundary U s i \<longleftrightarrow> ((0 < i \<and> word_at U s (i - 1)) \<noteq> word_at U s i)"

definition lit_at :: "unicode \<Rightarrow> ustr \<Rightarrow> nat \<Rightarrow> ustr \<Rightarrow> bool" where
  "lit_at U s i l \<longleftrightarrow>
     i + length l \<le> length s \<and>
     map (fold_case U) (take (length l) (drop i s)) = map (fold_case U) l"

text \<open>The positions where a match of one item that starts at \<open>i\<close> can end.\<close>

fun ends :: "unicode \<Rightarrow> ustr \<Rightarrow> item \<Rightarrow> nat \<Rightarrow> nat list" where
  "ends U s WordB i = (if boundary U s i then [i] else [])"
| "ends U s (Lits ls) i = map (\<lambda>l. i + length l) (filter (lit_at U s i) ls)"
| "ends U s (Plus cs) i =
     map (\<lambda>j. i + j) [1..<Suc (length (takeWhile (in_set U cs) (drop i s)))]"
| "ends U s (Star cs) i =
     map (\<lambda>j. i + j) [0..<Suc (length (takeWhile (in_set U cs) (drop i s)))]"

definition ends_seq :: "unicode \<Rightarrow> ustr \<Rightarrow> regex \<Rightarrow> nat \<Rightarrow> nat list" where
  "ends_seq U s r i = fold (\<lambda>it ps. concat (map (ends U s it) ps)) r [i]"

text \<open>\<^verbatim>\<open>pattern.search(s)\<close> as a truth value: some position starts a match.\<close>

definition re_search :: "unicode \<Rightarrow> regex \<Rightarrow> ustr \<Rightarrow> bool" where
  "re_search U r s = list_ex (\<lambda>i. ends_seq U s r i \<noteq> []) [0..<Suc (length s)]"

definition asc :: "string \<Rightarrow> ustr" where
  "asc s = map of_char s"

text \<open>
  \<^verbatim>\<open>LEGAL_HINT_RE\<close>: a word boundary, one of the five structural words (Chuong,
  Muc, Dieu, Khoan, Diem, written with their Vietnamese letters), white space,
  and Roman numeral letters or digits; letter case is ignored.
\<close>

definition LEGAL_HINT_RE :: regex where
  "LEGAL_HINT_RE =
     [WordB,
      Lits [[67, 104, 432, 417, 110, 103], [77, 7909, 99], [272, 105, 7873, 117],
            [75, 104, 111, 7843, 110], [272, 105, 7875, 109]],
      Plus [Space],
      Plus [OneOf (asc ''IVXLC''), Digit]]"

text \<open>
  \<^verbatim>\<open>NUMERIC_INFO_RE\<close>: a word boundary, digits, optional white space, one of the
  nineteen units in the order of the source (gio, km/h, trieu, nghin, dong, lan,
  ngay, thang, nam, the percent sign, phan tram, cm3, cc, tan, km, m, kW, diem,
  giay phep lai xe), and a word boundary; letter case is ignored.
\<close>

definition NUMERIC_INFO_RE :: regex where
  "NUMERIC_INFO_RE =
     [WordB,
      Plus [Digit],
      Star [Space],
      Lits [[103, 105, 7901], asc ''km/h'', [116, 114, 105, 7879, 117],
            [110, 103, 104, 236, 110], [273, 7891, 110, 103], [108, 7847, 110],
            [110, 103, 224, 121], [116, 104, 225, 110, 103], [110, 259, 109],
            asc ''%'', [112, 104, 7847, 110, 32, 116, 114, 259, 109], asc ''cm3'',
            asc ''cc'', [116, 7845, 110], asc ''km'', asc ''m'', asc ''kW'',
            [273, 105, 7875, 109],
            [103, 105, 7845, 121, 32, 112, 104, 233, 112, 32, 108, 225, 105, 32, 120, 101]],
      WordB]"

subsection \<open>Query intent\<close>

definition tune_alpha :: "unicode \<Rightarrow> ustr \<Rightarrow> real \<Rightarrow> real" where
  "tune_alpha U query base_alpha =
     (if re_search U LEGAL_HINT_RE query then max (30 / 100) (base_alpha - 25 / 100)
      else if re_search U NUMERIC_INFO_RE query then max (40 / 100) (base_alpha - 15 / 100)
      else min (75 / 100) (base_alpha + 20 / 100))"

subsection \<open>The public retrieval function\<close>

definition INITIAL_K :: int where
  "INITIAL_K = 20"

text \<open>
  The argument \<open>k\<close> as a caller can pass it: \<open>None\<close>, an integer or a Boolean (a
  Python \<open>bool\<close> is an \<open>int\<close>). \<^verbatim>\<open>k = int(k) if k else 5\<close>.
\<close>

datatype pyk = KNone | KInt int | KBool bool

fun truthy :: "pyk \<Rightarrow> bool" where
  "truthy KNone = False"
| "truthy (KInt n) = (n \<noteq> 0)"
| "truthy (KBool b) = b"

fun to_int :: "pyk \<Rightarrow> int" where
  "to_int KNone = 0"
| "to_int (KInt n) = n"
| "to_int (KBool b) = (if b then 1 else 0)"

definition final_k :: "pyk \<Rightarrow> int" where
  "final_k k = (if truthy k then to_int k else 5)"

text \<open>\<^verbatim>\<open>s.strip()\<close>.\<close>

definition strip :: "unicode \<Rightarrow> ustr \<Rightarrow> ustr" where
  "strip U s = rev (dropWhile (is_space U) (rev (dropWhile (is_space U) s)))"

text \<open>\<^verbatim>\<open>p.get(key) or ""\<close>.\<close>

definition get_or_empty :: "props \<Rightarrow> string \<Rightarrow> ustr" where
  "get_or_empty p key = (case pget p key PNone of PNone \<Rightarrow> [] | PStr s \<Rightarrow> s)"

text \<open>\<^verbatim>\<open>sep.join(parts)\<close>.\<close>

fun join :: "ustr \<Rightarrow> ustr list \<Rightarrow> ustr" where
  "join sep [] = []"
| "join sep [x] = x"
| "join sep (x # y # ys) = x @ sep @ join sep (y # ys)"

text \<open>
  The block of context lines of one result. The labels are "[Can cu: ", "Dieu ",
  "Khoan " and "Diem " in their Vietnamese spelling.
\<close>

definition ctx_chunk :: "unicode \<Rightarrow> props \<Rightarrow> ustr" where
  "ctx_chunk U p =
     (let law = strip U (get_or_empty p ''law'');
          chapter = strip U (get_or_empty p ''chapter'');
          section = strip U (get_or_empty p ''section'');
          article_no = strip U (get_or_empty p ''article_no'');
          article_title = strip U (get_or_empty p ''article_title'');
          clause_no = get_or_empty p ''clause_no'';
          clause_head = strip U (get_or_empty p ''clause_head'');
          point = strip U (get_or_empty p ''point'');
          body_for_ctx = strip U (get_or_empty p ''text'');
          display_citation = strip U (get_or_empty p ''display_citation'');
          khoan = [75, 104, 111, 7843, 110, 32] @ clause_no;
          lines =
            (if display_citation \<noteq> []
             then [[91, 67, 259, 110, 32, 99, 7913, 58, 32] @ display_citation @ asc '']'']
             else [])
            @ (if law \<noteq> [] then [law] else [])
            @ (if chapter \<noteq> [] then [chapter] else [])
            @ (if section \<noteq> [] then [section] else [])
            @ (if article_no \<noteq> [] \<or> article_title \<noteq> []
               then [strip U ([272, 105, 7873, 117, 32] @ article_no)
                     @ (if article_title \<noteq> [] then asc ''. '' @ article_title else [])]
               else [])
            @ (if point \<noteq> []
               then (if clause_no \<noteq> [] \<and> clause_head \<noteq> []
                     then [khoan @ asc ''. '' @ clause_head]
                     else if clause_no \<noteq> [] then [khoan] else [])
                    @ [[272, 105, 7875, 109, 32] @ point @ asc '')'']
                    @ (if body_for_ctx \<noteq> [] then [body_for_ctx] else [])
               else (if clause_no \<noteq> [] then [khoan] else [])
                    @ (if body_for_ctx \<noteq> [] then [body_for_ctx] else []))
      in strip U (join [10] lines))"

text \<open>
  \<^verbatim>\<open>src = p.get("display_citation", "")\<close>,
  \<^verbatim>\<open>sources.append(f"{src}" if src else "")\<close>.
\<close>

definition source_of :: "props \<Rightarrow> ustr" where
  "source_of p = (case citation_key p of PNone \<Rightarrow> [] | PStr s \<Rightarrow> s)"

definition retrieve :: "unicode \<Rightarrow> env \<Rightarrow> ustr \<Rightarrow> pyk \<Rightarrow> error + (ustr \<times> ustr list)" where
  "retrieve U E question k =
     (let k' = final_k k;
          alpha = tune_alpha U question (55 / 100)
      in case retrieve_hybrid E question alpha INITIAL_K of
           Inl e \<Rightarrow> Inl e
         | Inr candidates \<Rightarrow>
        (case snd (rerank E question candidates k') of
           Inl e \<Rightarrow> Inl e
         | Inr top_results \<Rightarrow>
             Inr (join [10, 10]
                    (filter (\<lambda>c. c \<noteq> []) (map (\<lambda>res. ctx_chunk U (props res)) top_results)),
                  map (\<lambda>res. source_of (props res)) top_results)))"

subsection \<open>Answer generation\<close>

text \<open>The answer returned when the context is too short (the sentence starting "Trong cac trich dan luat duoc cung cap").\<close>

definition INSUFFICIENT :: ustr where
  "INSUFFICIENT =
    [84, 114, 111, 110, 103, 32, 99, 225, 99, 32, 116, 114, 237, 99, 104, 32, 100, 7851, 110,
     32, 108, 117, 7853, 116, 32, 273, 432, 7907, 99, 32, 99, 117, 110, 103, 32, 99, 7845,
     112, 44, 32, 107, 104, 244, 110, 103, 32, 99, 243, 32, 273, 7911, 32, 116, 104, 244,
     110, 103, 32, 116, 105, 110, 32, 273, 7875, 32, 116, 114, 7843, 32, 108, 7901, 105, 32,
     99, 104, 237, 110, 104, 32, 120, 225, 99, 32, 99, 226, 117, 32, 104, 7887, 105, 32, 110,
     224, 121, 46]"

text \<open>The answer used when the model returns no text (the sentence starting "Khong tim thay du thong tin").\<close>

definition NO_TEXT :: ustr where
  "NO_TEXT =
    [75, 104, 244, 110, 103, 32, 116, 236, 109, 32, 116, 104, 7845, 121, 32, 273, 7911, 32,
     116, 104, 244, 110, 103, 32, 116, 105, 110, 32, 116, 114, 111, 110, 103, 32, 99, 225,
     99, 32, 118, 259, 110, 32, 98, 7843, 110, 32, 108, 117, 7853, 116, 32, 273, 227, 32,
     273, 432, 7907, 99, 32, 108, 7853, 112, 32, 99, 104, 7881, 32, 109, 7909, 99, 32, 273,
     7875, 32, 116, 114, 7843, 32, 108, 7901, 105, 32, 99, 226, 117, 32, 104, 7887, 105, 32,
     110, 224, 121, 46]"

text \<open>The prefix of the answer when the call raises: "Loi khi goi Gemini API: ".\<close>

definition API_ERROR_PREFIX :: ustr where
  "API_ERROR_PREFIX =
    [76, 7895, 105, 32, 107, 104, 105, 32, 103, 7885, 105, 32, 71, 101, 109, 105, 110, 105,
     32, 65, 80, 73, 58, 32]"

text \<open>The note appended to a truncated context: a newline, an ellipsis and a remark in brackets.\<close>

definition TRUNCATION_NOTE :: ustr where
  "TRUNCATION_NOTE =
    [10, 8230, 32, 40, 273, 227, 32, 99, 7855, 116, 32, 110, 103, 7855, 110, 32, 99, 111,
     110, 116, 101, 120, 116, 32, 100, 111, 32, 113, 117, 225, 32, 100, 224, 105, 41]"

text \<open>The text of \<^verbatim>\<open>USER_PROMPT_TMPL\<close> before \<^verbatim>\<open>{question}\<close>.\<close>

definition PROMPT_HEAD :: ustr where
  "PROMPT_HEAD =
    [67, 226, 117, 32, 104, 7887, 105, 32, 99, 7911, 97, 32, 110, 103, 432, 7901, 105, 32,
     100, 249, 110, 103, 58, 10]"

text \<open>The text of \<^verbatim>\<open>USER_PROMPT_TMPL\<close> between \<^verbatim>\<open>{question}\<close> and \<^verbatim>\<open>{context}\<close>.\<close>

definition PROMPT_MID :: ustr where
  "PROMPT_MID =
    [10, 10, 67, 225, 99, 32, 273, 111, 7841, 110, 32, 108, 117, 7853, 116, 32, 40, 116, 114,
     237, 99, 104, 32, 116, 7915, 32, 118, 259, 110, 32, 98, 7843, 110, 32, 112, 104, 225,
     112, 32, 108, 117, 7853, 116, 44, 32, 98, 7841, 110, 32, 80, 72, 7842, 73, 32, 98, 225,
     109, 32, 115, 225, 116, 41, 58, 10]"

text \<open>The text of \<^verbatim>\<open>USER_PROMPT_TMPL\<close> after \<^verbatim>\<open>{context}\<close>.\<close>

definition PROMPT_TAIL :: ustr where
  "PROMPT_TAIL =
    [10, 10, 89, 234, 117, 32, 99, 7847, 117, 58, 10, 45, 32, 84, 114, 432, 7899, 99, 32,
     104, 7871, 116, 32, 104, 227, 121, 32, 116, 114, 7843, 32, 108, 7901, 105, 32, 116, 114,
     7921, 99, 32, 116, 105, 7871, 112, 32, 99, 226, 117, 32, 104, 7887, 105, 44, 32, 116,
     114, 236, 110, 104, 32, 98, 224, 121, 32, 109, 7841, 99, 104, 32, 108, 7841, 99, 44, 32,
     100, 7877, 32, 104, 105, 7875, 117, 46, 10, 45, 32, 78, 7871, 117, 32, 99, 226, 117, 32,
     104, 7887, 105, 32, 108, 105, 234, 110, 32, 113, 117, 97, 110, 32, 273, 7871, 110, 32,
     109, 7913, 99, 32, 112, 104, 7841, 116, 44, 32, 116, 114, 225, 99, 104, 32, 110, 104,
     105, 7879, 109, 44, 32, 110, 103, 104, 297, 97, 32, 118, 7909, 32, 116, 104, 236, 32,
     104, 227, 121, 32, 108, 105, 7879, 116, 32, 107, 234, 32, 114, 245, 32, 116, 104, 101,
     111, 32, 116, 7915, 110, 103, 32, 116, 114, 432, 7901, 110, 103, 32, 104, 7907, 112, 32,
     108, 105, 234, 110, 32, 113, 117, 97, 110, 32, 116, 114, 111, 110, 103, 32, 99, 111,
     110, 116, 101, 120, 116, 32, 40, 118, 237, 32, 100, 7909, 58, 32, 116, 104, 101, 111,
     32, 108, 111, 7841, 105, 32, 120, 101, 44, 32, 273, 7889, 105, 32, 116, 432, 7907, 110,
     103, 32, 118, 105, 32, 112, 104, 7841, 109, 44, 32, 104, 224, 110, 104, 32, 118, 105,
     46, 46, 46, 41, 46, 10, 45, 32, 7902, 32, 99, 117, 7889, 105, 32, 99, 226, 117, 32, 116,
     114, 7843, 32, 108, 7901, 105, 44, 32, 116, 104, 234, 109, 32, 109, 7897, 116, 32, 100,
     242, 110, 103, 32, 114, 105, 234, 110, 103, 58, 10, 32, 32, 34, 67, 259, 110, 32, 99,
     7913, 32, 112, 104, 225, 112, 32, 108, 253, 58, 32, 46, 46, 46, 34, 32, 10, 32, 32, 118,
     224, 32, 108, 105, 7879, 116, 32, 107, 234, 32, 99, 225, 99, 32, 99, 259, 110, 32, 99,
     7913, 32, 112, 104, 225, 112, 32, 108, 253, 32, 100, 7921, 97, 32, 116, 114, 234, 110,
     32, 116, 104, 244, 110, 103, 32, 116, 105, 110, 32, 116, 114, 111, 110, 103, 32, 100,
     242, 110, 103, 32, 91, 67, 259, 110, 32, 99, 7913, 58, 32, 46, 46, 46, 93, 32, 7903, 32,
     273, 7847, 117, 32, 109, 7895, 105, 32, 273, 111, 7841, 110, 32, 108, 117, 7853, 116,
     46, 10, 32, 32, 86, 237, 32, 100, 7909, 58, 32, 110, 7871, 117, 32, 116, 104, 7845, 121,
     32, 34, 91, 67, 259, 110, 32, 99, 7913, 58, 32, 107, 104, 111, 7843, 110, 32, 52, 32,
     272, 105, 7873, 117, 32, 50, 32, 76, 117, 7853, 116, 32, 115, 7889, 32, 51, 53, 47, 50,
     48, 50, 52, 47, 81, 72, 49, 53, 93, 34, 32, 116, 104, 236, 32, 103, 104, 105, 32, 34,
     107, 104, 111, 7843, 110, 32, 52, 32, 272, 105, 7873, 117, 32, 50, 32, 76, 117, 7853,
     116, 32, 115, 7889, 32, 51, 53, 47, 50, 48, 50, 52, 47, 81, 72, 49, 53, 34, 46, 10, 45,
     32, 75, 104, 244, 110, 103, 32, 273, 432, 7907, 99, 32, 118, 105, 7879, 110, 32, 100,
     7851, 110, 32, 98, 7845, 116, 32, 107, 7923, 32, 99, 259, 110, 32, 99, 7913, 32, 110,
     224, 111, 32, 107, 104, 244, 110, 103, 32, 99, 243, 32, 116, 114, 111, 110, 103, 32, 99,
     225, 99, 32, 273, 111, 7841, 110, 32, 108, 117, 7853, 116, 32, 7903, 32, 116, 114, 234,
     110, 46, 10]"

text \<open>
  \<^verbatim>\<open>re.sub(r"\s+", " ", t)\<close>: every maximal run of white space becomes one space.
\<close>

function collapse_ws :: "unicode \<Rightarrow> ustr \<Rightarrow> ustr" where
  "collapse_ws U [] = []"
| "collapse_ws U (c # cs) =
     (if is_space U c then 32 # collapse_ws U (dropWhile (is_space U) cs)
      else c # collapse_ws U cs)"
  by pat_completeness auto
termination
  by (relation "measure (\<lambda>(U, s). length s)") (auto simp: le_imp_less_Suc length_dropWhile_le)

definition norm_key :: "unicode \<Rightarrow> ustr \<Rightarrow> ustr" where
  "norm_key U s = collapse_ws U (lower U (strip U s))"

text \<open>The loop of \<^verbatim>\<open>_dedupe_sources\<close> with its two variables \<open>seen\<close> and \<open>out\<close>.\<close>

fun dedupe_loop :: "unicode \<Rightarrow> ustr list \<Rightarrow> ustr set \<Rightarrow> ustr list \<Rightarrow> ustr list" where
  "dedupe_loop U [] seen out = out"
| "dedupe_loop U (s # ss) seen out =
     (let key = norm_key U s
      in if key \<noteq> [] \<and> key \<notin> seen
         then dedupe_loop U ss (insert key seen) (out @ [s])
         else dedupe_loop U ss seen out)"

definition dedupe_sources :: "unicode \<Rightarrow> ustr list \<Rightarrow> ustr list" where
  "dedupe_sources U sources = dedupe_loop U sources {} []"

definition truncate_context :: "ustr \<Rightarrow> nat \<Rightarrow> ustr" where
  "truncate_context ctx max_chars =
     (if length ctx \<le> max_chars then ctx else take max_chars ctx @ TRUNCATION_NOTE)"

definition build_prompt :: "unicode \<Rightarrow> ustr \<Rightarrow> ustr \<Rightarrow> ustr" where
  "build_prompt U question context =
     PROMPT_HEAD @ strip U question @ PROMPT_MID @ strip U context @ PROMPT_TAIL"

text \<open>
  What \<^verbatim>\<open>model.generate_content(prompt)\<close> and reading \<^verbatim>\<open>resp.text\<close> can do inside
  the \<^verbatim>\<open>try\<close>: give a text or \<open>None\<close>, or raise an exception with a message.
\<close>

datatype reply = Reply "ustr option" | Raised ustr

text \<open>
  \<^verbatim>\<open>generate_answer\<close>. The result carries the prompts sent to the generation
  model, so that a call of the oracle is visible. \<open>sources\<close> may be \<open>None\<close>.
\<close>

definition generate_answer ::
  "unicode \<Rightarrow> (ustr \<Rightarrow> reply) \<Rightarrow> ustr \<Rightarrow> ustr \<Rightarrow> ustr list option
     \<Rightarrow> ustr list \<times> (ustr \<times> ustr list)" where
  "generate_answer U generate_content question context sources =
     (if strip U context = [] \<or> length context < 300 then ([], (INSUFFICIENT, []))
      else
        (let truncated_context = truncate_context context 20000;
             sources' = dedupe_sources U (case sources of None \<Rightarrow> [] | Some l \<Rightarrow> l);
             prompt = build_prompt U question truncated_context;
             text =
               (case generate_content prompt of
                  Reply r \<Rightarrow>
                    (let t = strip U (case r of None \<Rightarrow> [] | Some x \<Rightarrow> x)
                     in if t = [] then NO_TEXT else t)
                | Raised msg \<Rightarrow> API_ERROR_PREFIX @ msg)
         in ([prompt], (text, sources'))))"

text \<open>\<^verbatim>\<open>ask_law\<close> of \<^verbatim>\<open>rag_qa.py\<close>: retrieve, then generate.\<close>

definition ask_law ::
  "unicode \<Rightarrow> env \<Rightarrow> (ustr \<Rightarrow> reply) \<Rightarrow> ustr \<Rightarrow> pyk \<Rightarrow> error + (ustr \<times> ustr list)" where
  "ask_law U E generate_content question k =
     (case retrieve U E question k of
        Inl e \<Rightarrow> Inl e
      | Inr (context, sources) \<Rightarrow>
          Inr (snd (generate_answer U generate_content question context (Some sources))))"

subsection \<open>Observations used in the statements\<close>







subsection \<open>Sample collaborators\<close>

text \<open>
  Two index sorts that meet the contract of \<open>argsort\<close>: one leaves equal values
  in index order, the other puts them in reverse index order.
\<close>

definition stable_argsort :: "real list \<Rightarrow> nat list" where
  "stable_argsort xs = sort_key (\<lambda>i. xs ! i) [0..<length xs]"


text \<open>A fragment with a citation and a body, both ASCII.\<close>

definition frag :: "string \<Rightarrow> string \<Rightarrow> props" where
  "frag cite body =
     [(''display_citation'', PStr (asc cite)), (''text'', PStr (asc body)),
      (''enriched_text'', PStr (asc body))]"

text \<open>A stand-in for the cross-encoder: the length of the fragment text.\<close>

definition text_length :: "(ustr \<times> pval) list \<Rightarrow> real list" where
  "text_length pairs =
     map (\<lambda>(q, t). case t of PNone \<Rightarrow> 0 | PStr s \<Rightarrow> real (length s)) pairs"

text \<open>
  A corpus of three fragments A, B, C with raw lexical scores 10, 5, 0, and a
  vector store that answers with B and a fragment D unknown to the corpus.
\<close>

definition demo_env :: env where
  "demo_env =
     \<lparr>chunks_cache = [frag ''A'' ''one'', frag ''B'' ''three'', frag ''C'' ''four''],
      get_scores = (\<lambda>q. [10, 5, 0]),
      argsort = stable_argsort,
      near_vector = (\<lambda>q k. [\<lparr>properties = frag ''B'' ''three'', distance = Some (1 / 4)\<rparr>,
                             \<lparr>properties = frag ''D'' ''fifteen'', distance = Some (1 / 2)\<rparr>]),
      predict = text_length\<rparr>"





text \<open>
  A table for ASCII, Latin-1 and the Vietnamese letters: white space, the digits
  \<open>0\<close> to \<open>9\<close>, letters and digits and the underscore as word characters, and the
  lower-case letter as the canonical form. It serves to run the functions on sample
  texts in this range.
\<close>

definition latin_space :: "nat \<Rightarrow> bool" where
  "latin_space c \<longleftrightarrow> c \<in> {9, 10, 11, 12, 13, 28, 29, 30, 31, 32, 133, 160}"

definition latin_digit :: "nat \<Rightarrow> bool" where
  "latin_digit c \<longleftrightarrow> 48 \<le> c \<and> c \<le> 57"

definition latin_word :: "nat \<Rightarrow> bool" where
  "latin_word c \<longleftrightarrow>
     latin_digit c \<or> (65 \<le> c \<and> c \<le> 90) \<or> (97 \<le> c \<and> c \<le> 122) \<or> c = 95
     \<or> c \<in> {170, 178, 179, 181, 185, 186, 188, 189, 190}
     \<or> (192 \<le> c \<and> c \<le> 591 \<and> c \<noteq> 215 \<and> c \<noteq> 247)
     \<or> (7680 \<le> c \<and> c \<le> 7935)"

definition latin_fold :: "nat \<Rightarrow> nat" where
  "latin_fold c =
     (if (65 \<le> c \<and> c \<le> 90) \<or> (192 \<le> c \<and> c \<le> 222 \<and> c \<noteq> 215) then c + 32
      else if c = 416 \<or> c = 431 then c + 1
      else if ((256 \<le> c \<and> c \<le> 303) \<or> (330 \<le> c \<and> c \<le> 375) \<or> (7680 \<le> c \<and> c \<le> 7829)
               \<or> (7840 \<le> c \<and> c \<le> 7935)) \<and> even c then c + 1
      else c)"

definition latin :: unicode where
  "latin = \<lparr>is_space = latin_space, is_digit = latin_digit, is_word = latin_word,
            fold_case = latin_fold, lower = map latin_fold\<rparr>"

section \<open>Properties\<close>

subsection \<open>Slicing, sorting and the fused list\<close>









lemma build_score_map_range:
  "build_score_map cache zs m = Inr m' \<Longrightarrow> \<forall>z \<in> set zs. fst z < length cache"
  by (induction cache zs m rule: build_score_map.induct) (auto split: if_splits)





lemma distinct_fused_keys:
  assumes d1: "distinct (map g ds)" and d2: "distinct (map h js)"
  shows "distinct (map g ds @ map h (filter (\<lambda>i. h i \<notin> set (map g ds)) js))"
proof -
  let ?D = "set (map g ds)"
  have a: "distinct (map h (filter (\<lambda>i. h i \<notin> ?D) js))"
    using d2 by (rule distinct_map_filter)
  have "set (map h (filter (\<lambda>i. h i \<notin> ?D) js)) \<subseteq> - ?D"
  proof
    fix x assume "x \<in> set (map h (filter (\<lambda>i. h i \<notin> ?D) js))"
    then obtain i where "x = h i" "h i \<notin> ?D"
      unfolding set_map set_filter by blast
    then show "x \<in> - ?D" by blast
  qed
  then have b: "?D \<inter> set (map h (filter (\<lambda>i. h i \<notin> ?D) js)) = {}"
    by blast
  from d1 a b show ?thesis
    unfolding distinct_append by blast
qed












subsection \<open>The sample collaborators at work\<close>

lemma demo_sel:
  "chunks_cache demo_env = [frag ''A'' ''one'', frag ''B'' ''three'', frag ''C'' ''four'']"
  "get_scores demo_env q = [10, 5, 0]"
  "argsort demo_env = stable_argsort"
  "near_vector demo_env q k =
     [\<lparr>properties = frag ''B'' ''three'', distance = Some (1 / 4)\<rparr>,
      \<lparr>properties = frag ''D'' ''fifteen'', distance = Some (1 / 2)\<rparr>]"
  "predict demo_env = text_length"
  by (simp_all add: demo_env_def)

lemma frag_key: "citation_key (frag c b) = PStr (asc c)"
  by (simp add: citation_key_def pget_def frag_def)

lemma demo_bm25: "retrieve_bm25 demo_env q 20 = Inr ([0, 1, 2], [10, 5, 0])"
  by (simp add: retrieve_bm25_def demo_sel stable_argsort_def slice_to_def upt_rec)







subsection \<open>Dense retrieval\<close>

text \<open>
  C4. Dense retrieval turns a distance into the score \<open>1 - distance\<close>. The source
  tests the truth value of the distance, so a stored distance of exactly \<open>0\<close> (the
  query vector itself) is scored \<open>0\<close>, not \<open>1\<close>; every other distance \<open>d\<close> is
  scored \<open>1 - d\<close> and a missing distance \<open>0\<close>.
\<close>

theorem retrieve_dense_zero_distance:
  "map score (retrieve_dense
      \<lparr>chunks_cache = [], get_scores = (\<lambda>q. []), argsort = (\<lambda>xs. []),
       near_vector = (\<lambda>q k. [\<lparr>properties = [], distance = Some 0\<rparr>,
                              \<lparr>properties = [], distance = Some (1 / 4)\<rparr>,
                              \<lparr>properties = [], distance = None\<rparr>]),
       predict = (\<lambda>ps. [])\<rparr> [] 20) = [0, 3 / 4, 0]"
  by (simp add: retrieve_dense_def dense_score_def)

subsection \<open>Hybrid fusion\<close>




text \<open>
  C6. An empty dense result set is harmless, but an empty lexical result set is
  not: \<^verbatim>\<open>np.max\<close> of the empty score list raises before the dense search is made.
  A pool size of \<open>0\<close> gives an empty lexical result set for every corpus.
\<close>

theorem retrieve_hybrid_empty_lexical_raises:
  "retrieve_hybrid E query alpha 0 = Inl ValueError"
  by (simp add: retrieve_hybrid_def fuse_all_def retrieve_bm25_def slice_to_def)









subsection \<open>Lexical retrieval\<close>










subsection \<open>Reranking\<close>










lemma frag_text: "pget (frag c b) ''enriched_text'' d = PStr (asc b)"
  by (simp add: pget_def frag_def)




subsection \<open>Query intent\<close>

lemma latin_sel:
  "is_space latin = latin_space" "is_digit latin = latin_digit" "is_word latin = latin_word"
  "fold_case latin = latin_fold" "lower latin = map latin_fold"
  by (simp_all add: latin_def)

lemmas rx_eval =
  ends_seq_def boundary_def word_at_def lit_at_def in_set_def in_cls_def
  latin_sel latin_space_def latin_digit_def latin_word_def latin_fold_def
  LEGAL_HINT_RE_def NUMERIC_INFO_RE_def asc_def upt_rec





lemma plain_question_matches_nothing:
  "\<not> re_search latin LEGAL_HINT_RE (asc ''xe di nguoc chieu'')"
  "\<not> re_search latin NUMERIC_INFO_RE (asc ''xe di nguoc chieu'')"
  by (simp add: re_search_def upt_rec asc_def, simp add: rx_eval)+

text \<open>
  The last item of \<^verbatim>\<open>NUMERIC_INFO_RE\<close> is a word boundary. After the percent
  sign, which is no word character, it holds only before a word character: "50%"
  at the end of a query is no match, the spelled-out "50 phan tram" is one.
\<close>

lemma percent_sign_at_end_not_found:
  "\<not> re_search latin NUMERIC_INFO_RE [53, 48, 37]"
  by (simp add: re_search_def upt_rec) (simp add: rx_eval)

lemma percent_spelled_out_found:
  "re_search latin NUMERIC_INFO_RE [53, 48, 32, 112, 104, 7847, 110, 32, 116, 114, 259, 109]"
  by (simp add: re_search_def upt_rec) (simp add: rx_eval)



subsection \<open>Citation deduplication\<close>







subsection \<open>The public retrieval function\<close>



lemma demo_hybrid_generic:
  "retrieve_hybrid demo_env q (3 / 4) 20 = Inr
     [\<lparr>props = frag ''B'' ''three'', score = 3 / 4 * (3 / 4) + (1 - 3 / 4) * (5 / (10 + eps)),
       rerank_score = None\<rparr>,
      \<lparr>props = frag ''D'' ''fifteen'', score = 3 / 4 * (1 / 2) + (1 - 3 / 4) * 0,
       rerank_score = None\<rparr>,
      \<lparr>props = frag ''A'' ''one'', score = (1 - 3 / 4) * (10 / (10 + eps)), rerank_score = None\<rparr>,
      \<lparr>props = frag ''C'' ''four'', score = (1 - 3 / 4) * (0 / (10 + eps)), rerank_score = None\<rparr>]"
  by (simp add: retrieve_hybrid_def fuse_all_def demo_bm25 retrieve_dense_def dense_score_def
      demo_sel frag_key combine_dense_def score_get_def asc_def eps_def sort_desc_def
      slice_to_def)

lemma demo_rerank_pool:
  "snd (rerank demo_env q
     [\<lparr>props = frag ''B'' ''three'', score = s1, rerank_score = None\<rparr>,
      \<lparr>props = frag ''D'' ''fifteen'', score = s2, rerank_score = None\<rparr>,
      \<lparr>props = frag ''A'' ''one'', score = s3, rerank_score = None\<rparr>,
      \<lparr>props = frag ''C'' ''four'', score = s4, rerank_score = None\<rparr>]
     5) = Inr
     [\<lparr>props = frag ''D'' ''fifteen'', score = s2, rerank_score = Some 7\<rparr>,
      \<lparr>props = frag ''B'' ''three'', score = s1, rerank_score = Some 5\<rparr>,
      \<lparr>props = frag ''C'' ''four'', score = s4, rerank_score = Some 4\<rparr>,
      \<lparr>props = frag ''A'' ''one'', score = s3, rerank_score = Some 3\<rparr>]"
  by (simp add: rerank_def demo_sel text_length_def frag_text asc_def
      sort_desc_def rerank_key_def slice_to_def)

lemma frag_source: "source_of (frag c b) = asc c"
  by (simp add: source_of_def frag_key)

lemma frag_chunk:
  "ctx_chunk latin (frag ''D'' ''fifteen'')
     = [91, 67, 259, 110, 32, 99, 7913, 58, 32] @ asc ''D]'' @ [10] @ asc ''fifteen''"
  "ctx_chunk latin (frag ''B'' ''three'')
     = [91, 67, 259, 110, 32, 99, 7913, 58, 32] @ asc ''B]'' @ [10] @ asc ''three''"
  "ctx_chunk latin (frag ''C'' ''four'')
     = [91, 67, 259, 110, 32, 99, 7913, 58, 32] @ asc ''C]'' @ [10] @ asc ''four''"
  "ctx_chunk latin (frag ''A'' ''one'')
     = [91, 67, 259, 110, 32, 99, 7913, 58, 32] @ asc ''A]'' @ [10] @ asc ''one''"
  by (simp_all add: ctx_chunk_def get_or_empty_def pget_def frag_def strip_def latin_sel
      latin_space_def asc_def Let_def)

lemma demo_alpha: "tune_alpha latin (asc ''xe di nguoc chieu'') (11 / 20) = 3 / 4"
  by (simp add: tune_alpha_def plain_question_matches_nothing)

lemma demo_retrieve:
  "retrieve latin demo_env (asc ''xe di nguoc chieu'') (KInt 5) = Inr
     ([91, 67, 259, 110, 32, 99, 7913, 58, 32] @ asc ''D]'' @ [10] @ asc ''fifteen'' @ [10, 10]
      @ [91, 67, 259, 110, 32, 99, 7913, 58, 32] @ asc ''B]'' @ [10] @ asc ''three'' @ [10, 10]
      @ [91, 67, 259, 110, 32, 99, 7913, 58, 32] @ asc ''C]'' @ [10] @ asc ''four'' @ [10, 10]
      @ [91, 67, 259, 110, 32, 99, 7913, 58, 32] @ asc ''A]'' @ [10] @ asc ''one'',
      [asc ''D'', asc ''B'', asc ''C'', asc ''A''])"
  by (simp add: retrieve_def final_k_def demo_alpha INITIAL_K_def demo_hybrid_generic
      demo_rerank_pool frag_source frag_chunk)




subsection \<open>Insufficient context\<close>

text \<open>
  C9. A context shorter than the threshold of 300 characters, the empty context
  included, gives the fixed sentence of insufficient information and no citations,
  and no prompt is sent to the generation model; so does the whole pipeline when
  the context it retrieved is that short.
\<close>

theorem generate_answer_insufficient_context:
  "(length context < 300 \<longrightarrow>
      generate_answer U generate_content question context sources
        = ([], (INSUFFICIENT, [])))
   \<and> (retrieve U E question k = Inr (context, cited) \<and> length context < 300 \<longrightarrow>
      ask_law U E generate_content question k = Inr (INSUFFICIENT, []))"
  by (simp add: generate_answer_def ask_law_def)

theorem generate_answer_insufficient_context_witness:
  "length ([] :: ustr) < 300
   \<and> generate_answer latin (\<lambda>prompt. Reply (Some (asc ''made up'')))
        (asc ''toc do toi da?'') [] None
       = ([], (INSUFFICIENT, []))
   \<and> length (asc ''Dieu 5. Quy tac chung'') < 300
   \<and> generate_answer latin (\<lambda>prompt. Reply (Some (asc ''made up'')))
        (asc ''toc do toi da?'') (asc ''Dieu 5. Quy tac chung'') (Some [asc ''Dieu 5''])
       = ([], (INSUFFICIENT, []))
   \<and> retrieve latin demo_env (asc ''xe di nguoc chieu'') (KInt 5) = Inr
     ([91, 67, 259, 110, 32, 99, 7913, 58, 32] @ asc ''D]'' @ [10] @ asc ''fifteen'' @ [10, 10]
      @ [91, 67, 259, 110, 32, 99, 7913, 58, 32] @ asc ''B]'' @ [10] @ asc ''three'' @ [10, 10]
      @ [91, 67, 259, 110, 32, 99, 7913, 58, 32] @ asc ''C]'' @ [10] @ asc ''four'' @ [10, 10]
      @ [91, 67, 259, 110, 32, 99, 7913, 58, 32] @ asc ''A]'' @ [10] @ asc ''one'',
      [asc ''D'', asc ''B'', asc ''C'', asc ''A''])
   \<and> ask_law latin demo_env (\<lambda>prompt. Reply (Some (asc ''made up'')))
        (asc ''xe di nguoc chieu'') (KInt 5) = Inr (INSUFFICIENT, [])"
proof -
  let ?gen = "\<lambda>prompt :: ustr. Reply (Some (asc ''made up''))"
  let ?ctx = "[91, 67, 259, 110, 32, 99, 7913, 58, 32] @ asc ''D]'' @ [10] @ asc ''fifteen'' @ [10, 10]
      @ [91, 67, 259, 110, 32, 99, 7913, 58, 32] @ asc ''B]'' @ [10] @ asc ''three'' @ [10, 10]
      @ [91, 67, 259, 110, 32, 99, 7913, 58, 32] @ asc ''C]'' @ [10] @ asc ''four'' @ [10, 10]
      @ [91, 67, 259, 110, 32, 99, 7913, 58, 32] @ asc ''A]'' @ [10] @ asc ''one''"
  have a: "length ([] :: ustr) < 300"
    by simp
  have b: "length (asc ''Dieu 5. Quy tac chung'') < 300"
    by (simp add: asc_def)
  have c: "length ?ctx < 300"
    by (simp add: asc_def)
  note r = demo_retrieve
  from generate_answer_insufficient_context
    [of "[]" latin ?gen "asc ''toc do toi da?''" None demo_env KNone "[]"] a
  have 1: "generate_answer latin ?gen (asc ''toc do toi da?'') [] None = ([], (INSUFFICIENT, []))"
    by blast
  from generate_answer_insufficient_context
    [of "asc ''Dieu 5. Quy tac chung''" latin ?gen "asc ''toc do toi da?''"
      "Some [asc ''Dieu 5'']" demo_env KNone "[]"] b
  have 2: "generate_answer latin ?gen (asc ''toc do toi da?'') (asc ''Dieu 5. Quy tac chung'')
      (Some [asc ''Dieu 5'']) = ([], (INSUFFICIENT, []))"
    by blast
  from generate_answer_insufficient_context
    [of ?ctx latin ?gen "asc ''xe di nguoc chieu''" None demo_env "KInt 5"
      "[asc ''D'', asc ''B'', asc ''C'', asc ''A'']"] r c
  have 3: "ask_law latin demo_env ?gen (asc ''xe di nguoc chieu'') (KInt 5)
      = Inr (INSUFFICIENT, [])"
    by blast
  from a b 1 2 r 3 show ?thesis
    by (intro conjI)
qed


end
